theory Spec2Isabelle
  imports Main "HOL-Library.Sublist"
begin

section \<open>Python string primitives used by server.py\<close>

text \<open>
  A Python \<open>str\<close> is modelled as a \<open>string\<close>, one \<open>char\<close> per character, so that
  \<open>len\<close> is \<open>length\<close>: the strings of the model are those over the code points
  U+0000 to U+00FF, a \<open>char\<close> being its code point. The characters that cannot be
  written inside a literal are given by their code.
\<close>

definition backslash :: char where
  "backslash = CHR 0x5C"

definition backquote :: char where
  "backquote = CHR 0x60"

text \<open>\<open>s.startswith(p)\<close> is \<open>prefix p s\<close>; \<open>s.endswith(p)\<close> is \<open>suffix p s\<close>.\<close>

text \<open>\<open>pattern in s\<close> for strings: some suffix of \<open>s\<close> starts with the pattern.\<close>

fun str_contains :: "string \<Rightarrow> string \<Rightarrow> bool" where
  "str_contains pat [] = (pat = [])"
| "str_contains pat (c # cs) = (prefix pat (c # cs) \<or> str_contains pat cs)"

text \<open>
  \<open>str.lower()\<close> on the code points below U+0100: the letters A to Z (65 to 90) and
  the capital letters U+00C0 to U+00DE (192 to 222) without the multiplication sign
  U+00D7 (215) are moved up by 32; every other character is kept.
\<close>

definition lower_char :: "char \<Rightarrow> char" where
  "lower_char c =
     (let n = (of_char c :: nat) in
      if (65 \<le> n \<and> n \<le> 90) \<or> (192 \<le> n \<and> n \<le> 222 \<and> n \<noteq> 215)
      then char_of (n + 32) else c)"

definition str_lower :: "string \<Rightarrow> string" where
  "str_lower s = map lower_char s"

text \<open>\<open>s.replace(old, new)\<close> where \<open>old\<close> and \<open>new\<close> are single characters.\<close>

definition str_replace :: "char \<Rightarrow> char \<Rightarrow> string \<Rightarrow> string" where
  "str_replace old new s = map (\<lambda>c. if c = old then new else c) s"

text \<open>\<open>s.lstrip(c)\<close> and \<open>s.rstrip(c)\<close> for a single character \<open>c\<close>.\<close>

definition str_lstrip :: "char \<Rightarrow> string \<Rightarrow> string" where
  "str_lstrip c s = dropWhile (\<lambda>x. x = c) s"

definition str_rstrip :: "char \<Rightarrow> string \<Rightarrow> string" where
  "str_rstrip c s = rev (dropWhile (\<lambda>x. x = c) (rev s))"

text \<open>
  \<open>s.split(sep)\<close> with a single-character separator: every occurrence splits, and the
  result always has at least one element (\<open>''.split('.') == ['']\<close>).
\<close>

fun str_split :: "char \<Rightarrow> string \<Rightarrow> string list" where
  "str_split sep [] = [[]]"
| "str_split sep (c # cs) =
     (if c = sep then [] # str_split sep cs
      else (case str_split sep cs of
              [] \<Rightarrow> [[c]]
            | w # ws \<Rightarrow> (c # w) # ws))"

text \<open>\<open>sep.join(parts)\<close>.\<close>

fun str_join :: "string \<Rightarrow> string list \<Rightarrow> string" where
  "str_join sep [] = []"
| "str_join sep [w] = w"
| "str_join sep (w # v # ws) = w @ sep @ str_join sep (v # ws)"

text \<open>\<open>s.find(c, start)\<close>: the first index at or after \<open>start\<close> holding \<open>c\<close>.\<close>

fun str_find_from :: "char \<Rightarrow> nat \<Rightarrow> string \<Rightarrow> nat option" where
  "str_find_from c i s =
     (case dropWhile (\<lambda>x. x \<noteq> c) (drop i s) of
        [] \<Rightarrow> None
      | _ # rest \<Rightarrow> Some (length s - Suc (length rest)))"

text \<open>\<open>s.rfind(c)\<close>: the last index holding \<open>c\<close>.\<close>

definition str_rfind :: "char \<Rightarrow> string \<Rightarrow> nat option" where
  "str_rfind c s =
     (case dropWhile (\<lambda>x. x \<noteq> c) (rev s) of
        [] \<Rightarrow> None
      | _ # rest \<Rightarrow> Some (length rest))"

section \<open>The posixpath functions used by server.py\<close>

definition sep :: char where
  "sep = CHR ''/''"

text \<open>\<open>os.path.isabs(s)\<close>: \<open>s.startswith('/')\<close>.\<close>

definition isabs :: "string \<Rightarrow> bool" where
  "isabs s = prefix [sep] s"

text \<open>
  \<open>os.path.join(a, b)\<close>: an absolute \<open>b\<close> replaces \<open>a\<close>; otherwise \<open>b\<close> is appended,
  with a separator unless \<open>a\<close> is empty or already ends with one.
\<close>

definition path_join :: "string \<Rightarrow> string \<Rightarrow> string" where
  "path_join a b =
     (if prefix [sep] b then b
      else if a = [] \<or> suffix [sep] a then a @ b
      else a @ [sep] @ b)"

text \<open>\<open>os.path.basename(p)\<close>: \<open>p[p.rfind('/') + 1:]\<close>.\<close>

definition basename :: "string \<Rightarrow> string" where
  "basename p = (case str_rfind sep p of None \<Rightarrow> p | Some i \<Rightarrow> drop (Suc i) p)"

text \<open>
  \<open>os.path.splitext(p)\<close>: the extension starts at the last dot of the last component,
  unless only dots precede it there.
\<close>

function splitext_scan :: "string \<Rightarrow> nat \<Rightarrow> nat \<Rightarrow> string \<times> string" where
  "splitext_scan p dotIndex filenameIndex =
     (if filenameIndex < dotIndex then
        (if take 1 (drop filenameIndex p) \<noteq> ''.'' then (take dotIndex p, drop dotIndex p)
         else splitext_scan p dotIndex (Suc filenameIndex))
      else (p, []))"
  by pat_completeness auto
termination
  by (relation "measure (\<lambda>(p, dotIndex, filenameIndex). dotIndex - filenameIndex)") auto

definition splitext :: "string \<Rightarrow> string \<times> string" where
  "splitext p =
     (case str_rfind CHR ''.'' p of
        None \<Rightarrow> (p, [])
      | Some dotIndex \<Rightarrow>
          (let filenameIndex = (case str_rfind sep p of None \<Rightarrow> 0 | Some i \<Rightarrow> Suc i) in
           if filenameIndex \<le> dotIndex
           then splitext_scan p dotIndex filenameIndex
           else (p, [])))"

text \<open>
  \<open>os.path.normpath(path)\<close>: empty and \<open>.\<close> components are dropped, \<open>..\<close> removes
  the component before it, exactly two leading slashes are kept.
\<close>

fun normpath_comps :: "nat \<Rightarrow> string list \<Rightarrow> string list \<Rightarrow> string list" where
  "normpath_comps initial_slashes [] new_comps = new_comps"
| "normpath_comps initial_slashes (c # comps) new_comps =
     (if c = [] \<or> c = ''.'' then normpath_comps initial_slashes comps new_comps
      else if c \<noteq> ''..'' \<or> (initial_slashes = 0 \<and> new_comps = [])
              \<or> (new_comps \<noteq> [] \<and> last new_comps = ''..'')
      then normpath_comps initial_slashes comps (new_comps @ [c])
      else if new_comps \<noteq> [] then normpath_comps initial_slashes comps (butlast new_comps)
      else normpath_comps initial_slashes comps new_comps)"

definition normpath :: "string \<Rightarrow> string" where
  "normpath path =
     (if path = [] then ''.''
      else
        let initial_slashes =
              (if prefix ''/'' path
               then (if prefix ''//'' path \<and> \<not> prefix ''///'' path then 2 else 1)
               else (0::nat));
            comps = normpath_comps initial_slashes (str_split sep path) [];
            joined = replicate initial_slashes sep @ str_join [sep] comps
        in if joined = [] then ''.'' else joined)"

section \<open>Python values and exceptions\<close>

text \<open>
  The values a parsed configuration tree holds, and \<open>None\<close>, which only occurs as a
  default of \<open>get\<close>. A \<open>dict\<close> is an association list in insertion order with
  \<open>map_of\<close> as lookup. Floating-point numbers and dates are not part of the model.
\<close>

datatype cfg =
    CNone
  | CBool bool
  | CInt int
  | CStr string
  | CList "cfg list"
  | CDict "(string \<times> cfg) list"

text \<open>An exception is a value: its class and the text \<open>str(e)\<close>.\<close>

datatype py_exn =
    TypeError string
  | AttributeError string
  | ValueError string
  | OSError string

fun exn_text :: "py_exn \<Rightarrow> string" where
  "exn_text (TypeError m) = m"
| "exn_text (AttributeError m) = m"
| "exn_text (ValueError m) = m"
| "exn_text (OSError m) = m"

definition quoted :: "string \<Rightarrow> string" where
  "quoted s = [CHR 0x27] @ s @ [CHR 0x27]"

fun type_name :: "cfg \<Rightarrow> string" where
  "type_name CNone = ''NoneType''"
| "type_name (CBool b) = ''bool''"
| "type_name (CInt n) = ''int''"
| "type_name (CStr s) = ''str''"
| "type_name (CList xs) = ''list''"
| "type_name (CDict kvs) = ''dict''"

text \<open>Truth value of an object in a condition.\<close>

fun truthy :: "cfg \<Rightarrow> bool" where
  "truthy CNone = False"
| "truthy (CBool b) = b"
| "truthy (CInt n) = (n \<noteq> 0)"
| "truthy (CStr s) = (s \<noteq> [])"
| "truthy (CList xs) = (xs \<noteq> [])"
| "truthy (CDict kvs) = (kvs \<noteq> [])"

fun hashable :: "cfg \<Rightarrow> bool" where
  "hashable (CList xs) = False"
| "hashable (CDict kvs) = False"
| "hashable v = True"

text \<open>
  \<open>set(v)\<close>: the elements of an iterable, which must be hashable. The set is kept as
  the list of its elements; only membership and emptiness are asked of it.
\<close>

definition py_set :: "cfg \<Rightarrow> py_exn + cfg list" where
  "py_set v =
     (case v of
        CList xs \<Rightarrow>
          (case filter (\<lambda>x. \<not> hashable x) xs of
             [] \<Rightarrow> Inr xs
           | x # _ \<Rightarrow> Inl (TypeError (''unhashable type: '' @ quoted (type_name x))))
      | CStr s \<Rightarrow> Inr (map (\<lambda>c. CStr [c]) s)
      | CDict kvs \<Rightarrow> Inr (map (\<lambda>kv. CStr (fst kv)) kvs)
      | _ \<Rightarrow> Inl (TypeError (quoted (type_name v) @ '' object is not iterable'')))"

text \<open>\<open>len(s) > v\<close> for a string \<open>s\<close>: defined against \<open>int\<close> and \<open>bool\<close> only.\<close>

definition len_gt :: "string \<Rightarrow> cfg \<Rightarrow> py_exn + bool" where
  "len_gt s v =
     (case v of
        CInt n \<Rightarrow> Inr (int (length s) > n)
      | CBool b \<Rightarrow> Inr (int (length s) > (if b then 1 else 0))
      | _ \<Rightarrow> Inl (TypeError (quoted ''>'' @ '' not supported between instances of ''
                 @ quoted ''int'' @ '' and '' @ quoted (type_name v))))"

section \<open>SecureConfigManager\<close>

text \<open>The built-in tree of \<open>_load_config\<close>.\<close>

definition default_config :: cfg where
  "default_config = CDict
     [(''download_locations'', CDict [(''default'', CStr ''~/video-downloader'')]),
      (''security'', CDict
         [(''enforce_location_restrictions'', CBool True),
          (''max_filename_length'', CInt 255),
          (''allowed_extensions'', CList (map CStr
             [''mp4'', ''webm'', ''mkv'', ''avi'', ''mov'', ''m4a'', ''mp3'', ''aac'',
              ''ogg'', ''wav'', ''vtt'', ''srt'', ''ass'', ''ssa''])),
          (''block_path_traversal'', CBool True)]),
      (''ytdlp'', CDict
         [(''default_format'', CStr ''best[height<=1080]''),
          (''default_filename_template'', CStr ''%(title)s.%(ext)s''),
          (''max_download_size'', CInt 0)]),
      (''logging'', CDict
         [(''log_security_events'', CBool True),
          (''log_downloads'', CBool True)])]"

text \<open>
  \<open>SecureConfigManager.get\<close>: the loop over the key segments, leaving with the
  default at the first segment that is not a key of a dict.
\<close>

fun get_walk :: "cfg \<Rightarrow> string list \<Rightarrow> cfg \<Rightarrow> cfg" where
  "get_walk val [] dflt = val"
| "get_walk val (key # keys) dflt =
     (case val of
        CDict kvs \<Rightarrow>
          (case map_of kvs key of
             Some v \<Rightarrow> get_walk v keys dflt
           | None \<Rightarrow> dflt)
      | _ \<Rightarrow> dflt)"

definition get :: "cfg \<Rightarrow> string \<Rightarrow> cfg \<Rightarrow> cfg" where
  "get config path dflt = get_walk config (str_split CHR ''.'' path) dflt"

text \<open>
  The contract of the Configuration Store in the words of the specification: one step
  follows one key segment and is undefined when the node is not a mapping or lacks the
  key; a path reaches a value when every step is defined.
\<close>

definition spec_step :: "cfg \<Rightarrow> string \<Rightarrow> cfg option" where
  "spec_step node key = (case node of CDict kvs \<Rightarrow> map_of kvs key | _ \<Rightarrow> None)"

definition spec_reach :: "cfg \<Rightarrow> string list \<Rightarrow> cfg option" where
  "spec_reach root keys =
     foldl (\<lambda>node key. case node of None \<Rightarrow> None | Some n \<Rightarrow> spec_step n key) (Some root) keys"

section \<open>The operating system\<close>

text \<open>
  What the code asks of the machine it runs on. \<open>user_home name\<close> is the lookup
  \<open>expanduser\<close> makes for a user (the empty name is the current user: \<open>HOME\<close> or the
  password database; any other name: \<open>pwd.getpwnam\<close>): the home directory, nothing
  when the user is unknown (the \<open>KeyError\<close> that \<open>expanduser\<close> catches), or an
  exception that \<open>expanduser\<close> lets through, such as the \<open>ValueError\<close> for a name
  holding a null character;
  \<open>realpath\<close> is \<open>os.path.realpath\<close>, which returns the canonical path or raises;
  \<open>makedirs\<close> is \<open>os.makedirs(p, mode=0o755, exist_ok=True)\<close>, which returns nothing
  or raises; \<open>access_w p\<close> is \<open>os.access(p, os.W_OK)\<close>.
\<close>

record os_env =
  user_home :: "string \<Rightarrow> py_exn + string option"
  realpath :: "string \<Rightarrow> py_exn + string"
  makedirs :: "string \<Rightarrow> py_exn + unit"
  access_w :: "string \<Rightarrow> bool"

text \<open>
  \<open>os.path.expanduser(path)\<close>: a path that does not start with a tilde is returned
  as it is; otherwise the part up to the first separator names the user, the path is
  returned unchanged when that user has no home directory, and an exception of the
  lookup leaves \<open>expanduser\<close>.
\<close>

definition expanduser :: "os_env \<Rightarrow> string \<Rightarrow> py_exn + string" where
  "expanduser env path =
     (if \<not> prefix ''~'' path then Inr path
      else
        let i = (case str_find_from sep 1 path of None \<Rightarrow> length path | Some j \<Rightarrow> j) in
        (case user_home env (take (i - 1) (drop 1 path)) of
           Inl e \<Rightarrow> Inl e
         | Inr None \<Rightarrow> Inr path
         | Inr (Some userhome) \<Rightarrow>
             (let expanded = str_rstrip sep userhome @ drop i path in
              if expanded = [] then Inr [sep] else Inr expanded)))"

text \<open>
  A machine without symbolic links whose working directory is the root and whose only
  user is the current one: the canonical path is the normalised absolute path, every
  directory with a name can be created and written, and a null character in a name
  raises a \<open>ValueError\<close>.
\<close>

definition plain_os :: os_env where
  "plain_os =
     \<lparr> user_home = (\<lambda>name. if CHR 0x00 \<in> set name then Inl (ValueError ''embedded null byte'')
                         else if name = [] then Inr (Some ''/home/user'') else Inr None),
       realpath = (\<lambda>p. if CHR 0x00 \<in> set p then Inl (ValueError ''embedded null byte'')
                        else Inr (normpath ([sep] @ str_lstrip sep p))),
       makedirs = (\<lambda>p. if CHR 0x00 \<in> set p then Inl (ValueError ''embedded null byte'')
                        else if p = []
                        then Inl (OSError (''[Errno 2] No such file or directory: '' @ quoted []))
                        else Inr ()),
       access_w = (\<lambda>p. True) \<rparr>"

section \<open>PathValidator\<close>

datatype reason =
    PathTraversalDetected
  | AbsolutePathRejected
  | PathEscapesBase string
  | FilenameTooLong cfg
  | ExtensionNotAllowed string
  | PathValidationError string
  | UnknownLocation string "string list"
  | LocationNotWritable string

text \<open>
  The reasons stand for the messages of the code:
  \<open>PathTraversalDetected\<close> for "Path traversal sequences detected",
  \<open>AbsolutePathRejected\<close> for "Absolute paths not allowed",
  \<open>PathEscapesBase d\<close> for "Path escapes allowed directory: d",
  \<open>FilenameTooLong m\<close> for "Filename too long (max m chars)",
  \<open>ExtensionNotAllowed e\<close> for "File extension .e not allowed",
  \<open>PathValidationError t\<close> for "Path validation error: t",
  \<open>UnknownLocation i ks\<close> for "Unknown location 'i'. Available: ks",
  \<open>LocationNotWritable i\<close> for "Location 'i' is not writable".
  The triple \<open>(True, p, None)\<close> is \<open>Accepted p\<close>, the triple \<open>(False, None, message)\<close>
  is \<open>Rejected\<close> with the reason of the message.
\<close>

datatype validation_result = Accepted string | Rejected reason

record path_validator =
  allowed_extensions :: "cfg list"
  max_filename_length :: cfg
  block_traversal :: cfg

text \<open>\<open>PathValidator.__init__\<close>: the three policy values read from the configuration.\<close>

definition PathValidator_init :: "cfg \<Rightarrow> py_exn + path_validator" where
  "PathValidator_init config =
     (case py_set (get config ''security.allowed_extensions'' (CList [])) of
        Inl e \<Rightarrow> Inl e
      | Inr exts \<Rightarrow>
          Inr \<lparr> allowed_extensions = exts,
                max_filename_length = get config ''security.max_filename_length'' (CInt 255),
                block_traversal = get config ''security.block_path_traversal'' (CBool True) \<rparr>)"

definition dangerous_patterns :: "string list" where
  "dangerous_patterns =
     [''../'', ''..'' @ [backslash], ''..'' @ [backslash, backslash], ''..//'']"

definition contains_traversal :: "string \<Rightarrow> bool" where
  "contains_traversal path =
     (let path_lower = str_lower path in
      list_ex (\<lambda>pattern. str_contains pattern path_lower) dangerous_patterns)"

text \<open>
  \<open>PathValidator.validate_path\<close>. Every exception raised inside the \<open>try\<close> block is
  caught and becomes a rejection carrying its text.
\<close>

definition validate_path :: "os_env \<Rightarrow> path_validator \<Rightarrow> string \<Rightarrow> string \<Rightarrow> validation_result" where
  "validate_path env pv path base_dir =
     (if truthy (block_traversal pv) \<and> contains_traversal path
      then Rejected PathTraversalDetected
      else
        (case expanduser env base_dir of
           Inl e \<Rightarrow> Rejected (PathValidationError (exn_text e))
         | Inr base_dir \<Rightarrow>
        if isabs path then Rejected AbsolutePathRejected
        else
          let full_path = path_join base_dir path in
          (case realpath env full_path of
             Inl e \<Rightarrow> Rejected (PathValidationError (exn_text e))
           | Inr normalized \<Rightarrow>
          (case realpath env base_dir of
             Inl e \<Rightarrow> Rejected (PathValidationError (exn_text e))
           | Inr base_real \<Rightarrow>
               if \<not> prefix (base_real @ [sep]) normalized \<and> normalized \<noteq> base_real
               then Rejected (PathEscapesBase base_dir)
               else
                 let filename = basename normalized in
                 (case len_gt filename (max_filename_length pv) of
                    Inl e \<Rightarrow> Rejected (PathValidationError (exn_text e))
                  | Inr True \<Rightarrow> Rejected (FilenameTooLong (max_filename_length pv))
                  | Inr False \<Rightarrow>
                      if allowed_extensions pv \<noteq> [] then
                        (let ext = str_lstrip CHR ''.'' (str_lower (snd (splitext filename))) in
                         if ext \<noteq> [] \<and> CStr ext \<notin> set (allowed_extensions pv)
                         then Rejected (ExtensionNotAllowed ext)
                         else Accepted normalized)
                      else Accepted normalized)))))"

definition dangerous_chars :: "char list" where
  "dangerous_chars =
     [CHR ''|'', CHR ''&'', CHR '';'', CHR ''$'', backquote, CHR ''>'', CHR ''<'']"

text \<open>\<open>PathValidator.sanitize_template_vars\<close>: one \<open>replace\<close> per dangerous character.\<close>

definition sanitize_template_vars :: "string \<Rightarrow> string" where
  "sanitize_template_vars template =
     foldl (\<lambda>sanitized ch. str_replace ch CHR ''_'' sanitized) template dangerous_chars"

section \<open>LocationManager\<close>

record location =
  loc_path :: string
  original :: string
  writable :: bool
  description :: string

text \<open>\<open>d[k] = v\<close> on a dict: an existing key keeps its place, a new key goes last.\<close>

fun dict_set :: "string \<Rightarrow> 'v \<Rightarrow> (string \<times> 'v) list \<Rightarrow> (string \<times> 'v) list" where
  "dict_set k v [] = [(k, v)]"
| "dict_set k v ((k', v') # kvs) =
     (if k' = k then (k, v) # kvs else (k', v') # dict_set k v kvs)"

text \<open>
  One round of the loop of \<open>_build_locations\<close>. \<open>expanduser\<close> stands outside the
  \<open>try\<close> block, so a configured path that is not a string ends the whole build with
  a \<open>TypeError\<close>, and so does any exception \<open>expanduser\<close> raises on a string; an
  exception of \<open>makedirs\<close> is caught and recorded.
\<close>

definition build_location :: "os_env \<Rightarrow> cfg \<Rightarrow> py_exn + location" where
  "build_location env v =
     (case v of
        CStr path \<Rightarrow>
          (case expanduser env path of
             Inl e \<Rightarrow> Inl e
           | Inr expanded_path \<Rightarrow>
               (case makedirs env expanded_path of
                  Inr u \<Rightarrow>
                    if access_w env expanded_path
                    then Inr \<lparr> loc_path = expanded_path, original = path, writable = True,
                               description = ''Download location: '' @ path \<rparr>
                    else Inr \<lparr> loc_path = expanded_path, original = path, writable = False,
                               description = ''Download location: '' @ path
                                             @ '' (not writable)'' \<rparr>
                | Inl e \<Rightarrow>
                    Inr \<lparr> loc_path = expanded_path, original = path, writable = False,
                          description = ''Download location: '' @ path @ '' (error: ''
                                        @ exn_text e @ '')'' \<rparr>))
      | _ \<Rightarrow> Inl (TypeError (''expected str, bytes or os.PathLike object, not ''
                              @ type_name v)))"

fun build_locations_loop ::
  "os_env \<Rightarrow> (string \<times> cfg) list \<Rightarrow> (string \<times> location) list
     \<Rightarrow> py_exn + (string \<times> location) list" where
  "build_locations_loop env [] locations = Inr locations"
| "build_locations_loop env ((location_id, v) # rest) locations =
     (case build_location env v of
        Inl e \<Rightarrow> Inl e
      | Inr loc \<Rightarrow> build_locations_loop env rest (dict_set location_id loc locations))"

definition build_locations :: "os_env \<Rightarrow> cfg \<Rightarrow> py_exn + (string \<times> location) list" where
  "build_locations env config =
     (case get config ''download_locations'' (CDict []) of
        CDict configured_locations \<Rightarrow> build_locations_loop env configured_locations []
      | v \<Rightarrow> Inl (AttributeError (quoted (type_name v) @ '' object has no attribute ''
                                   @ quoted ''items'')))"

record location_manager =
  lm_config :: cfg
  lm_validator :: path_validator
  locations_cache :: "(string \<times> location) list option"

definition LocationManager_init :: "cfg \<Rightarrow> py_exn + location_manager" where
  "LocationManager_init config =
     (case PathValidator_init config of
        Inl e \<Rightarrow> Inl e
      | Inr pv \<Rightarrow> Inr \<lparr> lm_config = config, lm_validator = pv, locations_cache = None \<rparr>)"

text \<open>\<open>get_locations\<close>: built on the first call, answered from the cache afterwards.\<close>

definition get_locations ::
  "os_env \<Rightarrow> location_manager \<Rightarrow> (py_exn + (string \<times> location) list) \<times> location_manager" where
  "get_locations env lm =
     (case locations_cache lm of
        None \<Rightarrow>
          (case build_locations env (lm_config lm) of
             Inl e \<Rightarrow> (Inl e, lm)
           | Inr locations \<Rightarrow> (Inr locations, lm\<lparr>locations_cache := Some locations\<rparr>))
      | Some locations \<Rightarrow> (Inr locations, lm))"

text \<open>
  \<open>validate_location\<close>: \<open>(True, path, None)\<close> is \<open>Inr path\<close>, \<open>(False, None, message)\<close>
  is \<open>Inl\<close> of the reason.
\<close>

definition validate_location ::
  "os_env \<Rightarrow> location_manager \<Rightarrow> string \<Rightarrow> (py_exn + (reason + string)) \<times> location_manager" where
  "validate_location env lm location_id =
     (case get_locations env lm of
        (Inl e, lm') \<Rightarrow> (Inl e, lm')
      | (Inr locations, lm') \<Rightarrow>
          (case map_of locations location_id of
             None \<Rightarrow> (Inr (Inl (UnknownLocation location_id (map fst locations))), lm')
           | Some loc \<Rightarrow>
               if \<not> writable loc then (Inr (Inl (LocationNotWritable location_id)), lm')
               else (Inr (Inr (loc_path loc)), lm')))"

text \<open>
  The relative path built by \<open>construct_download_path\<close>. \<open>None\<close> and the empty string
  are both false in a condition.
\<close>

fun full_relative_of :: "cfg \<Rightarrow> string option \<Rightarrow> string option \<Rightarrow> cfg" where
  "full_relative_of config (Some (r # rs)) (Some (t # ts)) = CStr (path_join (r # rs) (t # ts))"
| "full_relative_of config (Some (r # rs)) filename_template = CStr (r # rs)"
| "full_relative_of config relative_path (Some (t # ts)) = CStr (t # ts)"
| "full_relative_of config relative_path filename_template =
     get config ''ytdlp.default_filename_template'' (CStr ''%(title)s.%(ext)s'')"

text \<open>The calls \<open>construct_download_path\<close> makes to its helpers, in order.\<close>

datatype call =
    Call_validate_location string
  | Call_sanitize_template_vars cfg
  | Call_validate_path string string

text \<open>
  \<open>construct_download_path\<close>: its result (or the exception that leaves it), the calls
  it made and the manager afterwards. A default template that is not a string makes
  \<open>sanitize_template_vars\<close> raise an \<open>AttributeError\<close>.
\<close>

definition construct_download_path ::
  "os_env \<Rightarrow> location_manager \<Rightarrow> string \<Rightarrow> string option \<Rightarrow> string option
     \<Rightarrow> (py_exn + validation_result) \<times> call list \<times> location_manager" where
  "construct_download_path env lm location_id relative_path filename_template =
     (case validate_location env lm location_id of
        (Inl e, lm') \<Rightarrow> (Inl e, [Call_validate_location location_id], lm')
      | (Inr (Inl error), lm') \<Rightarrow>
          (Inr (Rejected error), [Call_validate_location location_id], lm')
      | (Inr (Inr base_path), lm') \<Rightarrow>
          (case full_relative_of (lm_config lm') relative_path filename_template of
             CStr full_relative \<Rightarrow>
               (let sanitized = sanitize_template_vars full_relative in
                (Inr (validate_path env (lm_validator lm') sanitized base_path),
                 [Call_validate_location location_id,
                  Call_sanitize_template_vars (CStr full_relative),
                  Call_validate_path sanitized base_path],
                 lm'))
           | v \<Rightarrow>
               (Inl (AttributeError (quoted (type_name v) @ '' object has no attribute ''
                                     @ quoted ''replace'')),
                [Call_validate_location location_id, Call_sanitize_template_vars v],
                lm')))"

text \<open>
  The configuration of the end-to-end example: the built-in tree with the location
  \<open>default\<close> set to \<open>/tmp/dl\<close>, and the manager built from it.
\<close>

definition example_config :: cfg where
  "example_config =
     (case default_config of
        CDict kvs \<Rightarrow>
          CDict (dict_set ''download_locations'' (CDict [(''default'', CStr ''/tmp/dl'')]) kvs)
      | v \<Rightarrow> v)"

definition example_validator :: path_validator where
  "example_validator =
     \<lparr> allowed_extensions = map CStr
         [''mp4'', ''webm'', ''mkv'', ''avi'', ''mov'', ''m4a'', ''mp3'', ''aac'',
          ''ogg'', ''wav'', ''vtt'', ''srt'', ''ass'', ''ssa''],
       max_filename_length = CInt 255,
       block_traversal = CBool True \<rparr>"

definition example_manager :: location_manager where
  "example_manager =
     \<lparr> lm_config = example_config, lm_validator = example_validator,
       locations_cache = None \<rparr>"

definition example_locations :: "(string \<times> location) list" where
  "example_locations =
     [(''default'',
       \<lparr> loc_path = ''/tmp/dl'', original = ''/tmp/dl'', writable = True,
         description = ''Download location: /tmp/dl'' \<rparr>)]"

text \<open>A validator as the example's, with the longest filename allowed set to 9.\<close>

definition short_validator :: path_validator where
  "short_validator = example_validator\<lparr>max_filename_length := CInt 9\<rparr>"


section \<open>Template sanitization\<close>

lemma sanitize_template_vars_map:
  "sanitize_template_vars t = map (\<lambda>c. if c \<in> set dangerous_chars then CHR ''_'' else c) t"
  by (simp add: sanitize_template_vars_def dangerous_chars_def str_replace_def backquote_def)

lemma underscore_not_dangerous: "CHR ''_'' \<notin> set dangerous_chars"
  by (simp add: dangerous_chars_def backquote_def)

text \<open>
  C8: template sanitization is idempotent: sanitizing a sanitized template changes
  nothing, for every string.
\<close>

theorem sanitize_template_vars_idempotent:
  "sanitize_template_vars (sanitize_template_vars t) = sanitize_template_vars t"
  by (simp add: sanitize_template_vars_map underscore_not_dangerous)

text \<open>
  C10: the output of \<open>sanitize_template_vars\<close> holds none of the seven dangerous
  characters, is as long as its input, keeps every character that is not dangerous
  at its position and has an underscore wherever the input has a dangerous one.
\<close>

theorem sanitize_template_vars_pointwise:
  "set dangerous_chars
     = {CHR ''|'', CHR ''&'', CHR '';'', CHR ''$'', CHR 0x60, CHR ''>'', CHR ''<''}
   \<and> set (sanitize_template_vars t) \<inter> set dangerous_chars = {}
   \<and> length (sanitize_template_vars t) = length t
   \<and> (\<forall>i<length t.
         sanitize_template_vars t ! i
           = (if t ! i \<in> set dangerous_chars then CHR ''_'' else t ! i))"
proof -
  have "set dangerous_chars
          = {CHR ''|'', CHR ''&'', CHR '';'', CHR ''$'', CHR 0x60, CHR ''>'', CHR ''<''}"
    by (simp add: dangerous_chars_def backquote_def)
  moreover have "set (sanitize_template_vars t) \<inter> set dangerous_chars = {}"
    using underscore_not_dangerous by (auto simp: sanitize_template_vars_map)
  moreover have "length (sanitize_template_vars t) = length t"
    by (simp add: sanitize_template_vars_map)
  moreover have "\<forall>i<length t.
         sanitize_template_vars t ! i
           = (if t ! i \<in> set dangerous_chars then CHR ''_'' else t ! i)"
    by (simp add: sanitize_template_vars_map)
  ultimately show ?thesis by blast
qed

theorem sanitize_template_vars_pointwise_witness:
  "(1::nat) < length ''a;b$''
   \<and> length (sanitize_template_vars ''a;b$'') = 4
   \<and> sanitize_template_vars ''a;b$'' ! 1 = CHR ''_''
   \<and> sanitize_template_vars ''a;b$'' ! 2 = CHR ''b''"
  using sanitize_template_vars_pointwise [of "''a;b$''"]
  by (simp add: dangerous_chars_def backquote_def)

section \<open>Configuration lookup\<close>

lemma foldl_reach_None:
  "foldl (\<lambda>node key. case node of None \<Rightarrow> None | Some n \<Rightarrow> spec_step n key) None keys = None"
  by (induction keys) simp_all

lemma spec_reach_Nil: "spec_reach root [] = Some root"
  by (simp add: spec_reach_def)

lemma spec_reach_Cons:
  "spec_reach root (key # keys) =
     (case spec_step root key of None \<Rightarrow> None | Some n \<Rightarrow> spec_reach n keys)"
  by (simp add: spec_reach_def foldl_reach_None split: option.splits)

lemma get_walk_spec_reach:
  "get_walk root keys dflt = (case spec_reach root keys of None \<Rightarrow> dflt | Some v \<Rightarrow> v)"
  by (induction root keys dflt rule: get_walk.induct)
     (auto simp: spec_reach_Nil spec_reach_Cons spec_step_def split: cfg.splits option.splits)

lemma spec_reach_None_iff:
  "spec_reach root keys = None \<longleftrightarrow>
     (\<exists>i<length keys. \<exists>node. spec_reach root (take i keys) = Some node
         \<and> spec_step node (keys ! i) = None)"
proof (induction keys arbitrary: root)
  case Nil
  show ?case by (simp add: spec_reach_Nil)
next
  case (Cons key keys)
  show ?case
  proof (cases "spec_step root key")
    case None
    have "spec_reach root (take 0 (key # keys)) = Some root
            \<and> spec_step root ((key # keys) ! 0) = None"
      using None by (simp add: spec_reach_Nil)
    then have "\<exists>i<length (key # keys). \<exists>node.
                 spec_reach root (take i (key # keys)) = Some node
                 \<and> spec_step node ((key # keys) ! i) = None"
      by (metis length_greater_0_conv list.distinct(1))
    with None show ?thesis by (simp add: spec_reach_Cons)
  next
    case (Some n)
    have "(\<exists>i<length (key # keys). \<exists>node.
              spec_reach root (take i (key # keys)) = Some node
              \<and> spec_step node ((key # keys) ! i) = None) \<longleftrightarrow>
          (\<exists>j<length keys. \<exists>node.
              spec_reach n (take j keys) = Some node
              \<and> spec_step node (keys ! j) = None)" (is "?L \<longleftrightarrow> ?R")
    proof
      assume ?L
      then obtain i node where i: "i < length (key # keys)"
        and r: "spec_reach root (take i (key # keys)) = Some node"
        and s: "spec_step node ((key # keys) ! i) = None" by blast
      show ?R
      proof (cases i)
        case 0
        with r s Some show ?thesis by (simp add: spec_reach_Nil)
      next
        case (Suc j)
        with i r s Some show ?thesis by (auto simp: spec_reach_Cons)
      qed
    next
      assume ?R
      then obtain j node where j: "j < length keys"
        and r: "spec_reach n (take j keys) = Some node"
        and s: "spec_step node (keys ! j) = None" by blast
      have "Suc j < length (key # keys)" using j by simp
      moreover have "spec_reach root (take (Suc j) (key # keys)) = Some node"
        using r Some by (simp add: spec_reach_Cons)
      moreover have "spec_step node ((key # keys) ! Suc j) = None" using s by simp
      ultimately show ?L by blast
    qed
    with Cons.IH [of n] Some show ?thesis by (simp add: spec_reach_Cons)
  qed
qed

text \<open>
  C9: \<open>get\<close> follows the dotted path one key segment at a time. It returns the value
  reached when every segment is a key of the mapping reached before it, and the
  caller's default otherwise, that is exactly when after some number of segments the
  node reached is not a mapping or lacks the next segment. \<open>get\<close> is a total
  function of the model: no input makes it raise.
\<close>

theorem get_follows_segments:
  "get config path dflt
     = (case spec_reach config (str_split CHR ''.'' path) of Some v \<Rightarrow> v | None \<Rightarrow> dflt)
   \<and> (spec_reach config (str_split CHR ''.'' path) = None \<longleftrightarrow>
        (\<exists>i<length (str_split CHR ''.'' path). \<exists>node.
            spec_reach config (take i (str_split CHR ''.'' path)) = Some node
            \<and> spec_step node (str_split CHR ''.'' path ! i) = None))"
  using spec_reach_None_iff [of config "str_split CHR ''.'' path"]
  by (simp add: get_def get_walk_spec_reach split: option.splits)

theorem get_follows_segments_witness:
  "get default_config ''security.max_filename_length'' CNone = CInt 255
   \<and> get default_config ''security.missing.deeper'' (CInt 7) = CInt 7
   \<and> get default_config ''security.max_filename_length.deeper'' (CInt 7) = CInt 7"
proof -
  have r1: "spec_reach default_config (str_split CHR ''.'' ''security.max_filename_length'')
              = Some (CInt 255)"
    by code_simp
  have r2: "spec_reach default_config (str_split CHR ''.'' ''security.missing.deeper'') = None"
    by code_simp
  have r3: "spec_reach default_config
              (str_split CHR ''.'' ''security.max_filename_length.deeper'') = None"
    by code_simp
  show ?thesis
    using get_follows_segments [of default_config "''security.max_filename_length''" CNone]
      get_follows_segments [of default_config "''security.missing.deeper''" "CInt 7"]
      get_follows_segments [of default_config "''security.max_filename_length.deeper''" "CInt 7"]
    by (simp only: r1 r2 r3 option.case)
qed

section \<open>Path validation\<close>

lemma str_contains_prefix: "prefix pat s \<Longrightarrow> str_contains pat s"
  by (cases s) simp_all

lemma str_contains_append: "str_contains pat (ps @ pat @ ss)"
proof (induction ps)
  case Nil
  show ?case by (simp add: str_contains_prefix)
next
  case (Cons a ps)
  then show ?case by simp
qed

lemma lower_char_fixed:
  "lower_char CHR ''.'' = CHR ''.''"
  "lower_char CHR ''/'' = CHR ''/''"
  "lower_char backslash = backslash"
  by (simp_all add: lower_char_def backslash_def)

lemma contains_traversal_slash: "contains_traversal (pre @ ''../'' @ post)"
proof -
  have "str_lower (pre @ ''../'' @ post) = str_lower pre @ ''../'' @ str_lower post"
    by (simp add: str_lower_def lower_char_fixed)
  then have "str_contains ''../'' (str_lower (pre @ ''../'' @ post))"
    using str_contains_append [of "''../''" "str_lower pre" "str_lower post"] by simp
  then show ?thesis by (simp add: contains_traversal_def dangerous_patterns_def)
qed

lemma contains_traversal_backslash: "contains_traversal (pre @ ''..'' @ [backslash] @ post)"
proof -
  have "str_lower (pre @ ''..'' @ [backslash] @ post)
          = str_lower pre @ (''..'' @ [backslash]) @ str_lower post"
    by (simp add: str_lower_def lower_char_fixed)
  then have "str_contains (''..'' @ [backslash]) (str_lower (pre @ ''..'' @ [backslash] @ post))"
    using str_contains_append [of "''..'' @ [backslash]" "str_lower pre" "str_lower post"]
    by simp
  then show ?thesis by (simp add: contains_traversal_def dangerous_patterns_def)
qed

text \<open>What is left of \<open>validate_path\<close> once the first four steps have passed.\<close>

lemma validate_path_contained:
  assumes "\<not> (truthy (block_traversal pv) \<and> contains_traversal path)"
    and "expanduser env base_dir = Inr base"
    and "\<not> isabs path"
    and "realpath env (path_join base path) = Inr normalized"
    and "realpath env base = Inr base_real"
    and "normalized = base_real \<or> prefix (base_real @ [sep]) normalized"
  shows "validate_path env pv path base_dir =
     (case len_gt (basename normalized) (max_filename_length pv) of
        Inl e \<Rightarrow> Rejected (PathValidationError (exn_text e))
      | Inr True \<Rightarrow> Rejected (FilenameTooLong (max_filename_length pv))
      | Inr False \<Rightarrow>
          if allowed_extensions pv \<noteq> [] then
            (let ext = str_lstrip CHR ''.'' (str_lower (snd (splitext (basename normalized)))) in
             if ext \<noteq> [] \<and> CStr ext \<notin> set (allowed_extensions pv)
             then Rejected (ExtensionNotAllowed ext)
             else Accepted normalized)
          else Accepted normalized)"
  using assms by (auto simp: validate_path_def Let_def)

text \<open>
  C1: whenever \<open>validate_path\<close> accepts, the path it returns is the canonical form
  (\<open>realpath\<close>) of the base directory joined with the candidate, and it is either the
  canonical base directory itself or starts with the canonical base directory followed
  by the path separator.
\<close>

theorem validate_path_containment:
  assumes "validate_path env pv path base_dir = Accepted p"
  shows "\<exists>base. expanduser env base_dir = Inr base
       \<and> realpath env (path_join base path) = Inr p
       \<and> (\<exists>base_real. realpath env base = Inr base_real
            \<and> (p = base_real \<or> prefix (base_real @ [sep]) p))"
  using assms
  by (auto simp: validate_path_def Let_def split: if_splits sum.splits bool.splits)

theorem validate_path_containment_witness:
  "validate_path plain_os example_validator ''subdir/./video.mp4'' ''/tmp/test''
     = Accepted ''/tmp/test/subdir/video.mp4''
   \<and> expanduser plain_os ''/tmp/test'' = Inr ''/tmp/test''
   \<and> realpath plain_os (path_join ''/tmp/test'' ''subdir/./video.mp4'')
       = Inr ''/tmp/test/subdir/video.mp4''
   \<and> realpath plain_os ''/tmp/test'' = Inr ''/tmp/test''
   \<and> prefix (''/tmp/test'' @ [sep]) ''/tmp/test/subdir/video.mp4''"
proof -
  have acc: "validate_path plain_os example_validator ''subdir/./video.mp4'' ''/tmp/test''
               = Accepted ''/tmp/test/subdir/video.mp4''"
    by code_simp
  have ex: "expanduser plain_os ''/tmp/test'' = Inr ''/tmp/test''"
    by code_simp
  have pre: "prefix (''/tmp/test'' @ [sep]) ''/tmp/test/subdir/video.mp4''"
    by code_simp
  have base: "realpath plain_os ''/tmp/test'' = Inr ''/tmp/test''"
    by code_simp
  from validate_path_containment [OF acc] obtain b where
    "expanduser plain_os ''/tmp/test'' = Inr b"
    and n: "realpath plain_os (path_join b ''subdir/./video.mp4'')
              = Inr ''/tmp/test/subdir/video.mp4''"
    by blast
  with ex have "b = ''/tmp/test''" by (simp only: sum.inject)
  with n have "realpath plain_os (path_join ''/tmp/test'' ''subdir/./video.mp4'')
                 = Inr ''/tmp/test/subdir/video.mp4''"
    by (simp only:)
  with acc ex base pre show ?thesis by blast
qed

text \<open>
  C2: with traversal enforcement on, every candidate that contains \<open>../\<close> or a
  backslash after two dots is rejected, with the reason \<open>PathTraversalDetected\<close>; it
  is never accepted. (The two sequences hold no letter, so the case of the candidate
  does not matter.)
\<close>

theorem validate_path_rejects_traversal:
  assumes "truthy (block_traversal pv)"
    and "path = pre @ ''../'' @ post \<or> path = pre @ ''..'' @ [CHR 0x5C] @ post"
  shows "validate_path env pv path base_dir = Rejected PathTraversalDetected"
  using assms contains_traversal_slash [of pre post] contains_traversal_backslash [of pre post]
  by (auto simp: validate_path_def backslash_def)

theorem validate_path_rejects_traversal_witness:
  "truthy (block_traversal example_validator)
   \<and> ''sub/../../escape.mp4'' = ''sub/'' @ ''../'' @ ''../escape.mp4''
   \<and> validate_path plain_os example_validator ''sub/../../escape.mp4'' ''/tmp/test''
       = Rejected PathTraversalDetected"
  using validate_path_rejects_traversal
    [of example_validator "''sub/../../escape.mp4''" "''sub/''" "''../escape.mp4''"
        plain_os "''/tmp/test''"]
  by (simp add: example_validator_def)

text \<open>
  C4, as the code has it: an absolute candidate is rejected with the reason
  \<open>AbsolutePathRejected\<close>, for every policy value and for every base directory
  whose tilde expansion returns, provided the traversal screen, which runs first,
  does not reject the candidate (enforcement is off, or the candidate holds no
  traversal sequence). The tilde expansion of the base directory also runs before the
  test for an absolute candidate: where it raises, the candidate is rejected with the
  text of that exception as a path validation error.
\<close>

theorem validate_path_rejects_absolute:
  assumes "isabs path"
    and "\<not> (truthy (block_traversal pv) \<and> contains_traversal path)"
  shows "(\<forall>base. expanduser env base_dir = Inr base \<longrightarrow>
            validate_path env pv path base_dir = Rejected AbsolutePathRejected)
       \<and> (\<forall>e. expanduser env base_dir = Inl e \<longrightarrow>
            validate_path env pv path base_dir = Rejected (PathValidationError (exn_text e)))"
  using assms by (auto simp: validate_path_def)

theorem validate_path_rejects_absolute_witness:
  "isabs ''/absolute/path.mp4''
   \<and> \<not> (truthy (block_traversal example_validator) \<and> contains_traversal ''/absolute/path.mp4'')
   \<and> expanduser plain_os ''/tmp/test'' = Inr ''/tmp/test''
   \<and> validate_path plain_os example_validator ''/absolute/path.mp4'' ''/tmp/test''
       = Rejected AbsolutePathRejected
   \<and> expanduser plain_os (''~a'' @ [CHR 0x00] @ ''b'')
       = Inl (ValueError ''embedded null byte'')
   \<and> validate_path plain_os example_validator ''/absolute/path.mp4''
        (''~a'' @ [CHR 0x00] @ ''b'')
       = Rejected (PathValidationError ''embedded null byte'')"
proof -
  have a: "isabs ''/absolute/path.mp4''"
    by code_simp
  have t: "\<not> (truthy (block_traversal example_validator)
               \<and> contains_traversal ''/absolute/path.mp4'')"
    by code_simp
  have ex: "expanduser plain_os ''/tmp/test'' = Inr ''/tmp/test''"
    by code_simp
  have raising: "expanduser plain_os (''~a'' @ [CHR 0x00] @ ''b'')
                   = Inl (ValueError ''embedded null byte'')"
    by code_simp
  have msg: "exn_text (ValueError ''embedded null byte'') = ''embedded null byte''"
    by (simp only: exn_text.simps)
  have r1: "validate_path plain_os example_validator ''/absolute/path.mp4'' ''/tmp/test''
              = Rejected AbsolutePathRejected"
    using validate_path_rejects_absolute [OF a t, of plain_os "''/tmp/test''"] ex by blast
  have "validate_path plain_os example_validator ''/absolute/path.mp4''
          (''~a'' @ [CHR 0x00] @ ''b'')
          = Rejected (PathValidationError (exn_text (ValueError ''embedded null byte'')))"
    using validate_path_rejects_absolute [OF a t, of plain_os "''~a'' @ [CHR 0x00] @ ''b''"]
      raising by blast
  then have r2: "validate_path plain_os example_validator ''/absolute/path.mp4''
          (''~a'' @ [CHR 0x00] @ ''b'')
          = Rejected (PathValidationError ''embedded null byte'')"
    by (simp only: msg)
  from a t ex r1 raising r2 show ?thesis by blast
qed

text \<open>
  The claim C4 as it is written fails: under the default policy the absolute
  candidate \<open>/../etc/passwd\<close> is rejected by the traversal screen, with the reason
  \<open>PathTraversalDetected\<close>.
\<close>

theorem absolute_path_counterexample:
  "isabs ''/../etc/passwd''
   \<and> validate_path plain_os example_validator ''/../etc/passwd'' ''/tmp/test''
       = Rejected PathTraversalDetected
   \<and> validate_path plain_os example_validator ''/../etc/passwd'' ''/tmp/test''
       \<noteq> Rejected AbsolutePathRejected"
  by code_simp

text \<open>
  C6, as the code has it: for a candidate that has passed the steps before the length
  check, a final component of exactly the configured maximum length passes the length
  check, and the candidate is then accepted when the extension check that follows
  passes (the allow-list is empty, or the extension is empty or in the allow-list) and
  rejected with the reason \<open>ExtensionNotAllowed\<close> when it does not; a final component
  one character longer than the maximum is rejected with the reason
  \<open>FilenameTooLong\<close>. The final component is that of the canonical path.
\<close>

theorem validate_path_length_boundary:
  assumes "\<not> (truthy (block_traversal pv) \<and> contains_traversal path)"
    and "expanduser env base_dir = Inr base"
    and "\<not> isabs path"
    and "realpath env (path_join base path) = Inr normalized"
    and "realpath env base = Inr base_real"
    and "normalized = base_real \<or> prefix (base_real @ [sep]) normalized"
    and "max_filename_length pv = CInt m"
  shows "(int (length (basename normalized)) = m \<longrightarrow>
            validate_path env pv path base_dir =
              (let ext = str_lstrip CHR ''.'' (str_lower (snd (splitext (basename normalized))))
               in if allowed_extensions pv \<noteq> [] \<and> ext \<noteq> []
                     \<and> CStr ext \<notin> set (allowed_extensions pv)
                  then Rejected (ExtensionNotAllowed ext)
                  else Accepted normalized))
       \<and> (int (length (basename normalized)) = m + 1 \<longrightarrow>
            validate_path env pv path base_dir = Rejected (FilenameTooLong (CInt m)))"
  using assms(7)
  by (auto simp: validate_path_contained [OF assms(1-6)] Let_def len_gt_def)

theorem validate_path_length_boundary_witness:
  "int (length (basename ''/tmp/test/movie.mp4'')) = 9
   \<and> validate_path plain_os short_validator ''movie.mp4'' ''/tmp/test''
       = Accepted ''/tmp/test/movie.mp4''
   \<and> int (length (basename ''/tmp/test/movies.mp4'')) = 9 + 1
   \<and> validate_path plain_os short_validator ''movies.mp4'' ''/tmp/test''
       = Rejected (FilenameTooLong (CInt 9))"
proof -
  have m: "max_filename_length short_validator = CInt 9"
    by (simp add: short_validator_def)
  have ex: "expanduser plain_os ''/tmp/test'' = Inr ''/tmp/test''"
    by code_simp
  have base: "realpath plain_os ''/tmp/test'' = Inr ''/tmp/test''"
    by code_simp
  have t1: "\<not> (truthy (block_traversal short_validator) \<and> contains_traversal ''movie.mp4'')"
    by code_simp
  have a1: "\<not> isabs ''movie.mp4''"
    by code_simp
  have n1: "realpath plain_os (path_join ''/tmp/test'' ''movie.mp4'')
              = Inr ''/tmp/test/movie.mp4''"
    by code_simp
  have c1: "''/tmp/test/movie.mp4'' = ''/tmp/test''
              \<or> prefix (''/tmp/test'' @ [sep]) ''/tmp/test/movie.mp4''"
    by code_simp
  have l1: "int (length (basename ''/tmp/test/movie.mp4'')) = 9"
    by code_simp
  have e1: "(let ext = str_lstrip CHR ''.''
                         (str_lower (snd (splitext (basename ''/tmp/test/movie.mp4''))))
             in if allowed_extensions short_validator \<noteq> [] \<and> ext \<noteq> []
                   \<and> CStr ext \<notin> set (allowed_extensions short_validator)
                then Rejected (ExtensionNotAllowed ext)
                else Accepted ''/tmp/test/movie.mp4'') = Accepted ''/tmp/test/movie.mp4''"
    by code_simp
  have t2: "\<not> (truthy (block_traversal short_validator) \<and> contains_traversal ''movies.mp4'')"
    by code_simp
  have a2: "\<not> isabs ''movies.mp4''"
    by code_simp
  have n2: "realpath plain_os (path_join ''/tmp/test'' ''movies.mp4'')
              = Inr ''/tmp/test/movies.mp4''"
    by code_simp
  have c2: "''/tmp/test/movies.mp4'' = ''/tmp/test''
              \<or> prefix (''/tmp/test'' @ [sep]) ''/tmp/test/movies.mp4''"
    by code_simp
  have l2: "int (length (basename ''/tmp/test/movies.mp4'')) = 9 + 1"
    by code_simp
  have r1: "validate_path plain_os short_validator ''movie.mp4'' ''/tmp/test''
              = Accepted ''/tmp/test/movie.mp4''"
    using validate_path_length_boundary [OF t1 ex a1 n1 base c1 m] l1 e1 by (simp only:)
  have r2: "validate_path plain_os short_validator ''movies.mp4'' ''/tmp/test''
              = Rejected (FilenameTooLong (CInt 9))"
    using validate_path_length_boundary [OF t2 ex a2 n2 base c2 m] l2 by blast
  from l1 r1 l2 r2 show ?thesis by blast
qed

text \<open>
  The claim C6 as it is written fails in its first half: with a maximum of 9 the
  candidate \<open>script.sh\<close> passes every step before the length check and its final
  component has exactly 9 characters, yet it is not accepted: the extension check
  rejects it with the reason \<open>ExtensionNotAllowed\<close>.
\<close>

theorem length_boundary_counterexample:
  "\<not> (truthy (block_traversal short_validator) \<and> contains_traversal ''script.sh'')
   \<and> expanduser plain_os ''/tmp/test'' = Inr ''/tmp/test''
   \<and> \<not> isabs ''script.sh''
   \<and> realpath plain_os (path_join ''/tmp/test'' ''script.sh'') = Inr ''/tmp/test/script.sh''
   \<and> realpath plain_os ''/tmp/test'' = Inr ''/tmp/test''
   \<and> prefix (''/tmp/test'' @ [sep]) ''/tmp/test/script.sh''
   \<and> max_filename_length short_validator = CInt 9
   \<and> int (length (basename ''/tmp/test/script.sh'')) = 9
   \<and> validate_path plain_os short_validator ''script.sh'' ''/tmp/test''
       = Rejected (ExtensionNotAllowed ''sh'')"
  by code_simp



section \<open>Download paths\<close>

lemma plain_os_example_locations:
  "get_locations plain_os example_manager
     = (Inr example_locations, example_manager\<lparr>locations_cache := Some example_locations\<rparr>)"
  by code_simp

text \<open>
  C5: for a location id that is not among the configured locations,
  \<open>construct_download_path\<close> returns a rejection with the reason \<open>UnknownLocation\<close>,
  whatever the relative path and the filename template are, and it has called
  \<open>validate_location\<close> only: no candidate is sanitized and no path is validated.
\<close>

theorem construct_download_path_unknown_location:
  assumes "get_locations env lm = (Inr locations, lm')"
    and "location_id \<notin> fst ` set locations"
  shows "construct_download_path env lm location_id relative_path filename_template
           = (Inr (Rejected (UnknownLocation location_id (map fst locations))),
              [Call_validate_location location_id], lm')"
proof -
  have "map_of locations location_id = None"
    using assms(2) by (simp add: map_of_eq_None_iff)
  with assms(1) show ?thesis
    by (simp add: construct_download_path_def validate_location_def)
qed

theorem construct_download_path_unknown_location_witness:
  "''unknown_id'' \<notin> fst ` set example_locations
   \<and> construct_download_path plain_os example_manager ''unknown_id''
        (Some ''../../etc'') (Some ''passwd'')
       = (Inr (Rejected (UnknownLocation ''unknown_id'' (map fst example_locations))),
          [Call_validate_location ''unknown_id''],
          example_manager\<lparr>locations_cache := Some example_locations\<rparr>)"
proof -
  have n: "''unknown_id'' \<notin> fst ` set example_locations"
    by (simp add: example_locations_def)
  from construct_download_path_unknown_location [OF plain_os_example_locations n] n
  show ?thesis by blast
qed

lemma example_config_download_locations:
  "get example_config ''download_locations'' (CDict [])
     = CDict [(''default'', CStr ''/tmp/dl'')]"
  by code_simp

lemma expanduser_tmp_dl: "expanduser env ''/tmp/dl'' = Inr ''/tmp/dl''"
  by (simp add: expanduser_def)

lemma example_build_location:
  assumes "makedirs env ''/tmp/dl'' = Inr ()" and "access_w env ''/tmp/dl''"
  shows "build_location env (CStr ''/tmp/dl'')
           = Inr \<lparr> loc_path = ''/tmp/dl'', original = ''/tmp/dl'', writable = True,
                   description = ''Download location: /tmp/dl'' \<rparr>"
  using assms by (simp add: build_location_def expanduser_tmp_dl Let_def)

lemma example_validate_location:
  assumes "makedirs env ''/tmp/dl'' = Inr ()" and "access_w env ''/tmp/dl''"
  shows "validate_location env example_manager ''default''
           = (Inr (Inr ''/tmp/dl''), example_manager\<lparr>locations_cache := Some example_locations\<rparr>)"
proof -
  have "build_locations env example_config = Inr example_locations"
    by (simp add: build_locations_def example_config_download_locations
        example_build_location [OF assms] example_locations_def)
  then have "get_locations env example_manager
      = (Inr example_locations, example_manager\<lparr>locations_cache := Some example_locations\<rparr>)"
    by (simp add: get_locations_def example_manager_def)
  then show ?thesis
    by (simp add: validate_location_def example_locations_def)
qed

lemma construct_download_path_result:
  assumes "validate_location env lm location_id = (Inr (Inr base_path), lm')"
    and "full_relative_of (lm_config lm') relative_path filename_template = CStr t"
  shows "fst (construct_download_path env lm location_id relative_path filename_template)
           = Inr (validate_path env (lm_validator lm') (sanitize_template_vars t) base_path)"
  using assms by (simp add: construct_download_path_def Let_def)

lemma example_validator_of_manager:
  "lm_validator (example_manager\<lparr>locations_cache := c\<rparr>) = example_validator"
  by (simp add: example_manager_def)

lemma example_candidates:
  "full_relative_of cfg (Some ''clips'') (Some ''movie.mp4'') = CStr ''clips/movie.mp4''"
  "full_relative_of cfg (Some ''../../etc'') (Some ''passwd'') = CStr ''../../etc/passwd''"
  "sanitize_template_vars ''clips/movie.mp4'' = ''clips/movie.mp4''"
  "sanitize_template_vars ''../../etc/passwd'' = ''../../etc/passwd''"
  by code_simp+

lemma example_accepts_movie:
  assumes "realpath env ''/tmp/dl'' = Inr ''/tmp/dl''"
    and "realpath env ''/tmp/dl/clips/movie.mp4'' = Inr ''/tmp/dl/clips/movie.mp4''"
  shows "validate_path env example_validator ''clips/movie.mp4'' ''/tmp/dl''
           = Accepted ''/tmp/dl/clips/movie.mp4''"
proof -
  have t: "\<not> (truthy (block_traversal example_validator)
               \<and> contains_traversal ''clips/movie.mp4'')"
    and a: "\<not> isabs ''clips/movie.mp4''"
    and j: "path_join ''/tmp/dl'' ''clips/movie.mp4'' = ''/tmp/dl/clips/movie.mp4''"
    and c: "''/tmp/dl/clips/movie.mp4'' = ''/tmp/dl''
              \<or> prefix (''/tmp/dl'' @ [sep]) ''/tmp/dl/clips/movie.mp4''"
    by code_simp+
  have tail: "(case len_gt (basename ''/tmp/dl/clips/movie.mp4'')
                      (max_filename_length example_validator) of
        Inl e \<Rightarrow> Rejected (PathValidationError (exn_text e))
      | Inr True \<Rightarrow> Rejected (FilenameTooLong (max_filename_length example_validator))
      | Inr False \<Rightarrow>
          if allowed_extensions example_validator \<noteq> [] then
            (let ext = str_lstrip CHR ''.''
                         (str_lower (snd (splitext (basename ''/tmp/dl/clips/movie.mp4'')))) in
             if ext \<noteq> [] \<and> CStr ext \<notin> set (allowed_extensions example_validator)
             then Rejected (ExtensionNotAllowed ext)
             else Accepted ''/tmp/dl/clips/movie.mp4'')
          else Accepted ''/tmp/dl/clips/movie.mp4'') = Accepted ''/tmp/dl/clips/movie.mp4''"
    by code_simp
  have n: "realpath env (path_join ''/tmp/dl'' ''clips/movie.mp4'')
             = Inr ''/tmp/dl/clips/movie.mp4''"
    using assms(2) by (simp only: j)
  from validate_path_contained [OF t expanduser_tmp_dl a n assms(1) c] tail
  show ?thesis by (rule trans)
qed

lemma example_rejects_passwd:
  "validate_path env example_validator ''../../etc/passwd'' ''/tmp/dl''
     = Rejected PathTraversalDetected"
proof -
  have "truthy (block_traversal example_validator) \<and> contains_traversal ''../../etc/passwd''"
    by code_simp
  then show ?thesis by (simp only: validate_path_def simp_thms if_True)
qed

text \<open>
  C3, as the code has it: with the location \<open>default\<close> configured as \<open>/tmp/dl\<close>, a
  directory that can be created and written and that no symbolic link leads out of,
  and the built-in policy otherwise, \<open>construct_download_path\<close> with \<open>clips\<close> and
  \<open>movie.mp4\<close> is accepted with the path \<open>/tmp/dl/clips/movie.mp4\<close>, and with
  \<open>../../etc\<close> and \<open>passwd\<close> it is rejected by the traversal screen, with the reason
  \<open>PathTraversalDetected\<close>.
\<close>

theorem construct_download_path_end_to_end:
  assumes "makedirs env ''/tmp/dl'' = Inr ()"
    and "access_w env ''/tmp/dl''"
    and "realpath env ''/tmp/dl'' = Inr ''/tmp/dl''"
    and "realpath env ''/tmp/dl/clips/movie.mp4'' = Inr ''/tmp/dl/clips/movie.mp4''"
  shows "LocationManager_init example_config = Inr example_manager
       \<and> fst (construct_download_path env example_manager ''default''
                (Some ''clips'') (Some ''movie.mp4''))
           = Inr (Accepted ''/tmp/dl/clips/movie.mp4'')
       \<and> fst (construct_download_path env example_manager ''default''
                (Some ''../../etc'') (Some ''passwd''))
           = Inr (Rejected PathTraversalDetected)"
proof -
  have init: "LocationManager_init example_config = Inr example_manager"
    by code_simp
  have movie: "fst (construct_download_path env example_manager ''default''
                      (Some ''clips'') (Some ''movie.mp4''))
                 = Inr (Accepted ''/tmp/dl/clips/movie.mp4'')"
    by (simp only: construct_download_path_result
          [OF example_validate_location [OF assms(1,2)] example_candidates(1)]
          example_candidates(3) example_validator_of_manager
          example_accepts_movie [OF assms(3,4)])
  have passwd: "fst (construct_download_path env example_manager ''default''
                       (Some ''../../etc'') (Some ''passwd''))
                  = Inr (Rejected PathTraversalDetected)"
    by (simp only: construct_download_path_result
          [OF example_validate_location [OF assms(1,2)] example_candidates(2)]
          example_candidates(4) example_validator_of_manager example_rejects_passwd)
  from init movie passwd show ?thesis by blast
qed

theorem construct_download_path_end_to_end_witness:
  "makedirs plain_os ''/tmp/dl'' = Inr ()
   \<and> access_w plain_os ''/tmp/dl''
   \<and> realpath plain_os ''/tmp/dl'' = Inr ''/tmp/dl''
   \<and> fst (construct_download_path plain_os example_manager ''default''
            (Some ''clips'') (Some ''movie.mp4''))
       = Inr (Accepted ''/tmp/dl/clips/movie.mp4'')
   \<and> fst (construct_download_path plain_os example_manager ''default''
            (Some ''../../etc'') (Some ''passwd''))
       = Inr (Rejected PathTraversalDetected)"
proof -
  have m: "makedirs plain_os ''/tmp/dl'' = Inr ()"
    and w: "access_w plain_os ''/tmp/dl''"
    and b: "realpath plain_os ''/tmp/dl'' = Inr ''/tmp/dl''"
    and n: "realpath plain_os ''/tmp/dl/clips/movie.mp4'' = Inr ''/tmp/dl/clips/movie.mp4''"
    by code_simp+
  from construct_download_path_end_to_end [OF m w b n] m w b show ?thesis by blast
qed

text \<open>
  The claim C3 as it is written fails in its second half: on a machine without
  symbolic links, where \<open>/tmp/dl\<close> is the writable base directory of \<open>default\<close>, the
  request with \<open>../../etc\<close> and \<open>passwd\<close> is rejected with \<open>PathTraversalDetected\<close>,
  not with \<open>PathEscapesBase\<close>.
\<close>

theorem end_to_end_reason_counterexample:
  "fst (validate_location plain_os example_manager ''default'') = Inr (Inr ''/tmp/dl'')
   \<and> fst (construct_download_path plain_os example_manager ''default''
            (Some ''../../etc'') (Some ''passwd''))
       = Inr (Rejected PathTraversalDetected)
   \<and> fst (construct_download_path plain_os example_manager ''default''
            (Some ''../../etc'') (Some ''passwd''))
       \<noteq> Inr (Rejected (PathEscapesBase ''/tmp/dl''))"
  by code_simp

end
